theory Spec2Isabelle
  imports Complex_Main
begin

section \<open>Dense vectors as the keypoint code uses them\<close>

text \<open>
  The keypoint code works on \<open>Eigen::VectorXd\<close>: a column vector whose length is known
  at run time only. A vector is a list of its coefficients, first row first. The scalar
  type is left open (any type with a zero and a subtraction), so that what is proved below
  does not depend on how the scalar type rounds: the subtraction that appears in a result
  is the subtraction of the scalar type itself.
\<close>

type_synonym 'a VectorXd = "'a list"

text \<open>
  The library checks each access with an assertion and the keypoint code adds no check of
  its own; outside the asserted range the access has no defined result. Both are the one
  failure value here.
\<close>

datatype eigen_error = OutOfRange

text \<open>\<open>v.rows()\<close>: the index type is signed, so \<open>rows() - 1\<close> of an empty vector is \<open>-1\<close>.\<close>

definition rows :: "'a VectorXd \<Rightarrow> int" where
  "rows v = int (length v)"

text \<open>\<open>VectorXd::Zero(n)\<close>.\<close>

definition Zero :: "int \<Rightarrow> ('a::zero) VectorXd" where
  "Zero n = replicate (nat n) 0"

text \<open>\<open>v.head(n)\<close>: the first \<open>n\<close> coefficients, asserted to be a block inside \<open>v\<close>.\<close>

definition head :: "'a VectorXd \<Rightarrow> int \<Rightarrow> eigen_error + 'a VectorXd" where
  "head v n = (if 0 \<le> n \<and> n \<le> rows v then Inr (take (nat n) v) else Inl OutOfRange)"

text \<open>\<open>v(i)\<close>: the coefficient at row \<open>i\<close>, asserted to be inside \<open>v\<close>.\<close>

definition coeff :: "'a VectorXd \<Rightarrow> int \<Rightarrow> eigen_error + 'a" where
  "coeff v i = (if 0 \<le> i \<and> i < rows v then Inr (v ! nat i) else Inl OutOfRange)"

text \<open>
  \<open>xpr << block, s\<close>: the comma initializer writes \<open>block\<close> into the leading rows of
  \<open>xpr\<close>, then \<open>s\<close> into the next row, and asserts that this filled \<open>xpr\<close> exactly.
\<close>

definition comma_initializer ::
  "'a VectorXd \<Rightarrow> 'a VectorXd \<Rightarrow> 'a \<Rightarrow> eigen_error + 'a VectorXd" where
  "comma_initializer xpr block s =
     (if rows block + 1 = rows xpr
      then Inr ((block @ drop (length block) xpr)[length block := s])
      else Inl OutOfRange)"

section \<open>Keypoints\<close>

text \<open>
  \<open>SpacetimeKeypoint\<close> derives from \<open>PosOrnKeypoint\<close> and adds the member
  \<open>continuous_time_\<close>. The base class is defined in another file of the repository, so
  what its two methods do is a field of the record and every statement below holds for
  any base class: \<open>PosOrnKeypoint_getState\<close> is the vector \<open>PosOrnKeypoint::getState()\<close>
  returns, and \<open>PosOrnKeypoint_diff\<close> is \<open>PosOrnKeypoint::diff\<close>, which returns a residual
  or fails on the state it is given.
\<close>

record 'a PosOrnKeypoint =
  PosOrnKeypoint_getState :: "'a VectorXd"
  PosOrnKeypoint_diff :: "'a VectorXd \<Rightarrow> eigen_error + 'a VectorXd"

record 'a SpacetimeKeypoint = "'a PosOrnKeypoint" +
  continuous_time :: 'a

text \<open>\<open>SpacetimeKeypoint::getState\<close>.\<close>

definition SpacetimeKeypoint_getState ::
  "('a::{zero,minus}) SpacetimeKeypoint \<Rightarrow> eigen_error + 'a VectorXd" where
  "SpacetimeKeypoint_getState kp =
     (let state = PosOrnKeypoint_getState kp;
          state_augmented = Zero (rows state + 1)
      in comma_initializer state_augmented state (continuous_time kp))"

text \<open>
  \<open>SpacetimeKeypoint::diff\<close>, in the order the source evaluates: the head of the state,
  the residual of the base class on it, the zero vector, the trailing entry of the state,
  the comma initializer. A failure ends the call.
\<close>

definition SpacetimeKeypoint_diff ::
  "('a::{zero,minus}) SpacetimeKeypoint \<Rightarrow> 'a VectorXd \<Rightarrow> eigen_error + 'a VectorXd" where
  "SpacetimeKeypoint_diff kp state =
     (case head state (rows state - 1) of
        Inl e \<Rightarrow> Inl e
      | Inr pose \<Rightarrow>
          (case PosOrnKeypoint_diff kp pose of
             Inl e \<Rightarrow> Inl e
           | Inr residual \<Rightarrow>
               (let residual_augmented = Zero (rows residual + 1)
                in case coeff state (rows state - 1) of
                     Inl e \<Rightarrow> Inl e
                   | Inr t \<Rightarrow>
                       comma_initializer residual_augmented residual (continuous_time kp - t))))"

text \<open>
  A base class for the examples: the state \<open>[1, 2]\<close> and the residual of a pose against
  it, entry by entry, defined for poses of two entries only.
\<close>

definition example_keypoint :: "int SpacetimeKeypoint" where
  "example_keypoint =
     \<lparr>PosOrnKeypoint_getState = [1, 2],
      PosOrnKeypoint_diff =
        (\<lambda>pose. if length pose = 2 then Inr (map2 (-) [1, 2] pose) else Inl OutOfRange),
      continuous_time = 10\<rparr>"

section \<open>The augmented-Lagrangian solver\<close>

text \<open>
  The solver's header declares \<open>struct Constraint\<close>, the class \<open>AL_ILQR\<close> with its three
  members, its constructor and the methods \<open>solve\<close>, \<open>augmentedLossK\<close> and \<open>constraints\<close>.
  The records below are those declarations. The bodies of the methods and the \<open>System\<close>
  class are in other files of the repository; each definition that stands for one of them
  says so and follows the specification. Scalars are \<open>double\<close> in the header and real
  numbers here.
\<close>

type_synonym Vec = "real list"
type_synonym Mat = "real list list"

text \<open>\<open>struct Constraint { MatrixXd A; VectorXd b; }\<close>: the inequality \<open>A\<cdot>[x;u] - b \<le> 0\<close>.\<close>

record Constraint =
  A :: Mat
  b :: Vec

text \<open>
  Modelled from the spec: the \<open>System\<close> class (\<open>System.h\<close>), as far as the solver loop uses
  it: the horizon, the initial state the forward pass starts from, the one-step dynamics
  and the cost of a timestep.
\<close>

record System =
  horizon :: nat
  initial_state :: Vec
  dynamics :: "Vec \<Rightarrow> Vec \<Rightarrow> Vec"
  cost :: "Vec \<Rightarrow> Vec \<Rightarrow> nat \<Rightarrow> real"

text \<open>The members of \<open>class AL_ILQR\<close>, as the header declares them.\<close>

record AL_ILQR =
  s :: System
  inequality :: "Constraint list"
  multipliers :: "Vec list"

text \<open>
  Modelled from the spec: the body of the constructor \<open>AL_ILQR::AL_ILQR\<close>, which keeps the
  system, the constraints and the initial multipliers it is given.
\<close>

definition AL_ILQR_new :: "System \<Rightarrow> Constraint list \<Rightarrow> Vec list \<Rightarrow> AL_ILQR" where
  "AL_ILQR_new sys ineq initLambda = \<lparr>s = sys, inequality = ineq, multipliers = initLambda\<rparr>"

subsection \<open>Vectors and matrices of reals\<close>

definition dot :: "Vec \<Rightarrow> Vec \<Rightarrow> real" where
  "dot u v = sum_list (map2 (*) u v)"

definition mat_vec :: "Mat \<Rightarrow> Vec \<Rightarrow> Vec" where
  "mat_vec M v = map (\<lambda>row. dot row v) M"

definition vec_add :: "Vec \<Rightarrow> Vec \<Rightarrow> Vec" where
  "vec_add u v = map2 (+) u v"

definition vec_sub :: "Vec \<Rightarrow> Vec \<Rightarrow> Vec" where
  "vec_sub u v = map2 (-) u v"

definition scale :: "real \<Rightarrow> Vec \<Rightarrow> Vec" where
  "scale c v = map ((*) c) v"

text \<open>The diagonal matrix with the given diagonal.\<close>

fun diag :: "Vec \<Rightarrow> Mat" where
  "diag [] = []"
| "diag (d # ds) = (d # replicate (length ds) 0) # map ((#) 0) (diag ds)"

subsection \<open>Constraints and the augmented loss of one timestep\<close>

text \<open>
  Modelled from the spec: the body of \<open>AL_ILQR::constraints\<close> (section 4.1): the matrix and
  the bound given at construction for timestep \<open>k\<close>. A timestep past the end of the list
  has no constraint row.
\<close>

definition constraints :: "AL_ILQR \<Rightarrow> Vec \<Rightarrow> Vec \<Rightarrow> nat \<Rightarrow> Mat \<times> Vec" where
  "constraints solver xk uk k =
     (if k < length (inequality solver)
      then (A (inequality solver ! k), b (inequality solver ! k))
      else ([], []))"

text \<open>Modelled from the spec: the constraint value \<open>C_k = A_k\<cdot>[x_k;u_k] - b_k\<close> (section 4.2).\<close>

definition constraint_value :: "AL_ILQR \<Rightarrow> Vec \<Rightarrow> Vec \<Rightarrow> nat \<Rightarrow> Vec" where
  "constraint_value solver xk uk k =
     (case constraints solver xk uk k of (Ak, bk) \<Rightarrow> vec_sub (mat_vec Ak (xk @ uk)) bk)"

text \<open>
  Modelled from the spec: the active-set mask \<open>I_k\<close> (sections 4.2 and 9): a diagonal 0/1
  matrix with a one for each row that is violated or whose multiplier is positive.
\<close>

definition active_rows :: "Vec \<Rightarrow> Vec \<Rightarrow> Vec" where
  "active_rows lambdak Ck = map2 (\<lambda>l c. if 0 < c \<or> 0 < l then 1 else 0) lambdak Ck"

text \<open>Modelled from the spec: the mask \<open>I_k\<close> as a matrix, the rows above on the diagonal.\<close>

definition active_set :: "Vec \<Rightarrow> Vec \<Rightarrow> Mat" where
  "active_set lambdak Ck = diag (active_rows lambdak Ck)"

text \<open>
  Modelled from the spec: the body of \<open>AL_ILQR::augmentedLossK\<close> (section 4.2). The
  declaration takes \<open>xk, uk, k, lambdak, Ck, Ik\<close>; the system (the member \<open>s\<close>) and the
  penalty of the running \<open>solve\<close> call are the two further arguments here.
\<close>

definition augmentedLossK ::
  "System \<Rightarrow> real \<Rightarrow> Vec \<Rightarrow> Vec \<Rightarrow> nat \<Rightarrow> Vec \<Rightarrow> Vec \<Rightarrow> Mat \<Rightarrow> real" where
  "augmentedLossK sys penalty xk uk k lambdak Ck Ik =
     cost sys xk uk k + dot lambdak (mat_vec Ik Ck) + penalty / 2 * dot Ck (mat_vec Ik Ck)"

subsection \<open>Trajectories and their cost\<close>

text \<open>
  Modelled from the spec: a trajectory (section 3), the states \<open>x_0..x_T\<close> and the controls
  \<open>u_0..u_{T-1}\<close>.
\<close>

record Trajectory =
  states :: "Vec list"
  controls :: "Vec list"

text \<open>
  Modelled from the spec: the timesteps of a trajectory (section 3), \<open>((x_k, u_k), k)\<close> for
  each control.
\<close>

definition timesteps :: "Trajectory \<Rightarrow> ((Vec \<times> Vec) \<times> nat) list" where
  "timesteps tr = zip (zip (states tr) (controls tr)) [0..<length (controls tr)]"

text \<open>
  Modelled from the spec: the multiplier \<open>\<lambda>_k\<close> of timestep \<open>k\<close> (section 3). A timestep past
  the end of the list has no multiplier entry.
\<close>

definition multiplier_at :: "AL_ILQR \<Rightarrow> nat \<Rightarrow> Vec" where
  "multiplier_at solver k = (if k < length (multipliers solver) then multipliers solver ! k else [])"

text \<open>
  Modelled from the spec: the total augmented cost over the horizon (section 4.4), the sum
  of \<open>augmentedLossK\<close> over the timesteps.
\<close>

definition total_cost :: "AL_ILQR \<Rightarrow> real \<Rightarrow> Trajectory \<Rightarrow> real" where
  "total_cost solver penalty tr =
     sum_list (map (\<lambda>((xk, uk), k).
        (let lambdak = multiplier_at solver k;
             Ck = constraint_value solver xk uk k
         in augmentedLossK (s solver) penalty xk uk k lambdak Ck (active_set lambdak Ck)))
       (timesteps tr))"

text \<open>Modelled from the spec: the constraint violations returned by \<open>solve\<close>, one per timestep.\<close>

definition violations :: "AL_ILQR \<Rightarrow> Trajectory \<Rightarrow> Vec list" where
  "violations solver tr = map (\<lambda>((xk, uk), k). constraint_value solver xk uk k) (timesteps tr)"

subsection \<open>The passes over the horizon\<close>

text \<open>
  Modelled from the spec: the gains of the backward pass (section 4.3), for each timestep
  the feedforward term \<open>k_k\<close> and the feedback matrix \<open>K_k\<close>.
\<close>

type_synonym Gains = "nat \<Rightarrow> Vec \<times> Mat"

text \<open>
  Modelled from the spec: what the body of \<open>solve\<close> fixes and the spec leaves open. The
  backward pass is a Riccati-like recursion whose formulas the spec does not give; it
  returns no gains when its regularisation is exhausted (section 7). The line search
  tries the step sizes \<open>1, 1/2, 1/4, \<dots>\<close> and \<open>line_search_steps\<close> is how many of them it
  tries before the minimum step size is reached. The early stop has a threshold.
\<close>

record Policy =
  backward_pass :: "AL_ILQR \<Rightarrow> real \<Rightarrow> Trajectory \<Rightarrow> Gains option"
  line_search_steps :: nat
  early_stop_threshold :: real

text \<open>
  Modelled from the spec: the states the controls \<open>U0\<close> lead through from a state, by the
  dynamics of the system.
\<close>

fun simulate :: "System \<Rightarrow> Vec \<Rightarrow> Vec list \<Rightarrow> Vec list" where
  "simulate sys x [] = [x]"
| "simulate sys x (u # us) = x # simulate sys (dynamics sys x u) us"

text \<open>
  Modelled from the spec: the trajectory \<open>solve\<close> starts from (section 1), the initial
  controls \<open>U0\<close> applied from the initial state.
\<close>

definition initial_trajectory :: "System \<Rightarrow> Vec list \<Rightarrow> Trajectory" where
  "initial_trajectory sys U0 = \<lparr>states = simulate sys (initial_state sys) U0, controls = U0\<rparr>"

text \<open>
  Modelled from the spec: the forward pass (section 4.4). From the initial state, each
  control is \<open>u_k_new = u_k_old + \<alpha>\<cdot>k_k + K_k\<cdot>(x_k_new - x_k_old)\<close> and the next state is
  the dynamics applied to it.
\<close>

fun forward_from ::
  "System \<Rightarrow> real \<Rightarrow> Gains \<Rightarrow> nat \<Rightarrow> Vec \<Rightarrow> (Vec \<times> Vec) list \<Rightarrow> Trajectory" where
  "forward_from sys \<alpha> g k x [] = \<lparr>states = [x], controls = []\<rparr>"
| "forward_from sys \<alpha> g k x ((x_old, u_old) # rest) =
     (let u = vec_add (vec_add u_old (scale \<alpha> (fst (g k)))) (mat_vec (snd (g k)) (vec_sub x x_old));
          tail = forward_from sys \<alpha> g (Suc k) (dynamics sys x u) rest
      in \<lparr>states = x # states tail, controls = u # controls tail\<rparr>)"

text \<open>
  Modelled from the spec: the forward pass over a whole trajectory, along the states and
  controls of the previous one.
\<close>

definition forward_pass :: "System \<Rightarrow> real \<Rightarrow> Gains \<Rightarrow> Trajectory \<Rightarrow> Trajectory" where
  "forward_pass sys \<alpha> g old =
     forward_from sys \<alpha> g 0 (initial_state sys) (zip (states old) (controls old))"

text \<open>
  Modelled from the spec: the backtracking of the line search (section 4.4). The step
  size is halved until the candidate's cost is strictly below the cost of the previous
  accepted trajectory; when the minimum step size is reached the previous trajectory is
  kept.
\<close>

fun backtrack ::
  "(real \<Rightarrow> Trajectory) \<Rightarrow> (Trajectory \<Rightarrow> real) \<Rightarrow> Trajectory \<Rightarrow> nat \<Rightarrow> real \<Rightarrow> Trajectory" where
  "backtrack candidate J previous 0 \<alpha> = previous"
| "backtrack candidate J previous (Suc n) \<alpha> =
     (if J (candidate \<alpha>) < J previous then candidate \<alpha>
      else backtrack candidate J previous n (\<alpha> / 2))"

subsection \<open>The outer loop\<close>

text \<open>
  Modelled from the spec: the variables of the loop in \<open>solve\<close>: the solver object (whose
  member \<open>multipliers\<close> the loop updates), the penalty and the accepted trajectory.
\<close>

record SolverState =
  alg :: AL_ILQR
  pen :: real
  traj :: Trajectory

text \<open>
  Modelled from the spec: the state Optimize (section 4.5): the backward pass, then the
  forward pass, with the line search when it is enabled and the step size 1 otherwise.
  No gains, no new trajectory.
\<close>

definition optimize :: "Policy \<Rightarrow> bool \<Rightarrow> SolverState \<Rightarrow> Trajectory option" where
  "optimize P line_search st =
     (case backward_pass P (alg st) (pen st) (traj st) of
        None \<Rightarrow> None
      | Some g \<Rightarrow>
          Some (if line_search
                then backtrack (\<lambda>\<alpha>. forward_pass (s (alg st)) \<alpha> g (traj st))
                       (total_cost (alg st) (pen st)) (traj st) (line_search_steps P) 1
                else forward_pass (s (alg st)) 1 g (traj st)))"

text \<open>
  Modelled from the spec: the update of one multiplier (section 4.5),
  \<open>\<lambda>_k \<leftarrow> max(0, \<lambda>_k + penalty\<cdot>C_k)\<close>, entry by entry.
\<close>

definition update_multiplier :: "real \<Rightarrow> Vec \<Rightarrow> Vec \<Rightarrow> Vec" where
  "update_multiplier penalty lambdak Ck = map2 (\<lambda>l c. max 0 (l + penalty * c)) lambdak Ck"

text \<open>
  Modelled from the spec: the multiplier update (section 4.5), each multiplier updated
  with the constraint value of its timestep. A multiplier past the last timestep has no
  constraint value and stays.
\<close>

definition update_multipliers :: "AL_ILQR \<Rightarrow> real \<Rightarrow> Trajectory \<Rightarrow> Vec list" where
  "update_multipliers solver penalty tr =
     map2 (update_multiplier penalty) (multipliers solver) (violations solver tr)
       @ drop (length (violations solver tr)) (multipliers solver)"

text \<open>
  Modelled from the spec: one outer iteration (sections 4.5 and 7). When the backward
  pass gives no gains the iteration is aborted and the state stays. Otherwise the
  trajectory of the forward pass is taken, the multipliers and the penalty are updated
  when the index is a multiple of \<open>lag_update_step\<close>, and the early stop is decided from
  the improvement of the total cost. The second component says whether to stop.
\<close>

definition outer_iteration ::
  "Policy \<Rightarrow> int \<Rightarrow> real \<Rightarrow> bool \<Rightarrow> bool \<Rightarrow> int \<Rightarrow> SolverState \<Rightarrow> SolverState \<times> bool" where
  "outer_iteration P lag_update_step scaling_factor line_search early_stop i st =
     (case optimize P line_search st of
        None \<Rightarrow> (st, False)
      | Some new \<Rightarrow>
          (let improvement = total_cost (alg st) (pen st) (traj st)
                               - total_cost (alg st) (pen st) new;
               st1 = st\<lparr>traj := new\<rparr>;
               st2 = (if i mod lag_update_step = 0
                      then st1\<lparr>alg := (alg st)\<lparr>multipliers :=
                                        update_multipliers (alg st) (pen st) new\<rparr>,
                               pen := pen st * scaling_factor\<rparr>
                      else st1)
           in (st2, early_stop \<and> improvement < early_stop_threshold P)))"

text \<open>
  Modelled from the spec: the loop over the outer iterations \<open>i, i + 1, \<dots>\<close>, at most \<open>n\<close>
  of them, as the list of the states it goes through: the state before each iteration it
  runs, then the state it ends in.
\<close>

fun iterations ::
  "Policy \<Rightarrow> int \<Rightarrow> real \<Rightarrow> bool \<Rightarrow> bool \<Rightarrow> nat \<Rightarrow> int \<Rightarrow> SolverState \<Rightarrow> SolverState list" where
  "iterations P lag_update_step scaling_factor line_search early_stop 0 i st = [st]"
| "iterations P lag_update_step scaling_factor line_search early_stop (Suc n) i st =
     st # (case outer_iteration P lag_update_step scaling_factor line_search early_stop i st of
             (st', stop) \<Rightarrow>
               if stop then [st']
               else iterations P lag_update_step scaling_factor line_search early_stop n (i + 1) st')"

subsection \<open>solve\<close>

text \<open>Modelled from the spec: the failure of a \<open>solve\<close> call (section 7).\<close>

datatype solve_error = InvalidConfiguration

text \<open>
  Modelled from the spec: the configurations \<open>solve\<close> accepts (section 7): one multiplier
  vector per constraint with as many entries as the constraint has rows, positive
  \<open>nb_iter\<close>, \<open>lag_update_step\<close> and \<open>penalty\<close>, and as many initial controls as the horizon.
\<close>

definition valid_configuration :: "AL_ILQR \<Rightarrow> Vec list \<Rightarrow> int \<Rightarrow> int \<Rightarrow> real \<Rightarrow> bool" where
  "valid_configuration solver U0 nb_iter lag_update_step penalty \<longleftrightarrow>
     list_all2 (\<lambda>lambdak c. length lambdak = length (A c)) (multipliers solver) (inequality solver)
     \<and> 0 < nb_iter \<and> 0 < lag_update_step \<and> 0 < penalty
     \<and> length U0 = horizon (s solver)"

text \<open>
  Modelled from the spec: the states the loop of a \<open>solve\<close> call goes through, from the
  trajectory of \<open>U0\<close> and the penalty of the caller.
\<close>

definition solve_states ::
  "Policy \<Rightarrow> AL_ILQR \<Rightarrow> Vec list \<Rightarrow> int \<Rightarrow> int \<Rightarrow> real \<Rightarrow> real \<Rightarrow> bool \<Rightarrow> bool
     \<Rightarrow> SolverState list" where
  "solve_states P solver U0 nb_iter lag_update_step penalty scaling_factor line_search early_stop =
     iterations P lag_update_step scaling_factor line_search early_stop (nat nb_iter) 0
       \<lparr>alg = solver, pen = penalty, traj = initial_trajectory (s solver) U0\<rparr>"

text \<open>
  Modelled from the spec: the body of \<open>AL_ILQR::solve\<close> (sections 4.5, 6 and 7), called
  without a callback. An invalid configuration fails before the loop. Otherwise the
  loop runs and the states, the controls and the constraint violations of the state it
  ends in are returned. The second component is the solver object after the call.
\<close>

definition solve ::
  "Policy \<Rightarrow> AL_ILQR \<Rightarrow> Vec list \<Rightarrow> int \<Rightarrow> int \<Rightarrow> real \<Rightarrow> real \<Rightarrow> bool \<Rightarrow> bool
     \<Rightarrow> (solve_error + Vec list \<times> Vec list \<times> Vec list) \<times> AL_ILQR" where
  "solve P solver U0 nb_iter lag_update_step penalty scaling_factor line_search early_stop =
     (if \<not> valid_configuration solver U0 nb_iter lag_update_step penalty
      then (Inl InvalidConfiguration, solver)
      else (let final = last (solve_states P solver U0 nb_iter lag_update_step penalty
                                 scaling_factor line_search early_stop)
            in (Inr (states (traj final), controls (traj final),
                     violations (alg final) (traj final)),
                alg final)))"

text \<open>
  Modelled from the spec: whether the outer iteration \<open>i\<close> updates the multipliers from the
  state \<open>st\<close> (sections 4.5 and 7): the iteration is not aborted and \<open>i\<close> is a multiple of
  \<open>lag_update_step\<close>.
\<close>

definition updates_multipliers :: "Policy \<Rightarrow> bool \<Rightarrow> int \<Rightarrow> int \<Rightarrow> SolverState \<Rightarrow> bool" where
  "updates_multipliers P line_search lag_update_step i st \<longleftrightarrow>
     optimize P line_search st \<noteq> None \<and> i mod lag_update_step = 0"

text \<open>A trajectory over a horizon of \<open>T\<close> timesteps: \<open>T\<close> controls and \<open>T + 1\<close> states.\<close>

definition shaped :: "nat \<Rightarrow> Trajectory \<Rightarrow> bool" where
  "shaped T tr \<longleftrightarrow> length (controls tr) = T \<and> length (states tr) = Suc T"

subsection \<open>A small instance\<close>

text \<open>
  One timestep of the integrator \<open>x' = x + u\<close> from \<open>x = 0\<close>, with the cost \<open>u\<^sup>2\<close> and the
  constraint \<open>1 - u \<le> 0\<close>. The zero control is the cheapest one and violates the
  constraint. The backward pass is the exact one of this instance while the constraint
  is active: the augmented loss \<open>u\<^sup>2 + \<lambda>\<cdot>(1 - u) + (penalty/2)\<cdot>(1 - u)\<^sup>2\<close> is least at
  \<open>u = (\<lambda> + penalty) / (2 + penalty)\<close>, and the feedforward gain is the step from the
  current control to it. The initial state is fixed, so the feedback gain plays no part.
\<close>

definition example_system :: System where
  "example_system = \<lparr>horizon = 1, initial_state = [0], dynamics = (\<lambda>x u. vec_add x u),
                      cost = (\<lambda>x u k. dot u u)\<rparr>"

definition example_solver :: AL_ILQR where
  "example_solver = AL_ILQR_new example_system [\<lparr>A = [[0, - 1]], b = [- 1]\<rparr>] [[0]]"

definition example_policy :: Policy where
  "example_policy =
     \<lparr>backward_pass =
        (\<lambda>solver penalty tr.
           case (multipliers solver, controls tr) of
             ([l] # _, [u] # _) \<Rightarrow> Some (\<lambda>k. ([(l + penalty) / (2 + penalty) - u], [[0]]))
           | _ \<Rightarrow> None),
      line_search_steps = 4, early_stop_threshold = 0\<rparr>"

definition example_states :: "SolverState list" where
  "example_states = solve_states example_policy example_solver [[0]] 2 1 1 10 True False"

section \<open>Properties of the keypoint code\<close>

lemma comma_initializer_Zero:
  "comma_initializer (Zero (rows block + 1)) block c = Inr (block @ [c])"
proof -
  have n: "nat (int (length block) + 1) = Suc (length block)"
    by simp
  have d: "drop (length block) (replicate (Suc (length block)) (0::'a)) = [0]"
    unfolding drop_replicate by simp
  have "(block @ drop (length block) (replicate (Suc (length block)) 0))[length block := c]
          = block @ [c]"
    unfolding d by (simp add: list_update_append)
  then show ?thesis
    by (simp add: comma_initializer_def Zero_def rows_def n)
qed

lemma head_snoc: "head (pose @ [t]) (rows (pose @ [t]) - 1) = Inr pose"
  by (simp add: head_def rows_def)

lemma coeff_snoc: "coeff (pose @ [t]) (rows (pose @ [t]) - 1) = Inr t"
  by (simp add: coeff_def rows_def)

lemma diff_snoc:
  "SpacetimeKeypoint_diff kp (pose @ [t])
     = (case PosOrnKeypoint_diff kp pose of
          Inl e \<Rightarrow> Inl e
        | Inr residual \<Rightarrow> Inr (residual @ [continuous_time kp - t]))"
  by (simp add: SpacetimeKeypoint_diff_def head_snoc coeff_snoc comma_initializer_Zero
      split: sum.splits)

lemma head_empty: "head [] (rows [] - 1) = Inl OutOfRange"
  by (simp add: head_def rows_def)

lemma coeff_empty: "coeff [] (rows [] - 1) = Inl OutOfRange"
  by (simp add: coeff_def rows_def)

lemma example_keypoint_diff:
  "SpacetimeKeypoint_diff example_keypoint [0, 5, 4] = Inr [1, - 3, 6]"
  using diff_snoc [of example_keypoint "[0, 5]" 4] by (simp add: example_keypoint_def)

lemma example_keypoint_getState:
  "SpacetimeKeypoint_getState example_keypoint = Inr [1, 2, 10]"
  by (simp add: SpacetimeKeypoint_getState_def example_keypoint_def comma_initializer_Zero)

text \<open>
  C1. For a target with continuous time \<open>t*\<close> and a state whose trailing component is
  \<open>t\<close>, that is a state \<open>pose @ [t]\<close>, \<open>SpacetimeKeypoint::diff\<close> returns the residual of
  the base class on \<open>pose\<close> (the state without its trailing component) followed by
  exactly one more entry, \<open>t* - t\<close>. When the base class has no residual for \<open>pose\<close>,
  neither has the call.
\<close>

theorem SpacetimeKeypoint_diff_residual:
  "SpacetimeKeypoint_diff kp (pose @ [t])
     = (case PosOrnKeypoint_diff kp pose of
          Inl e \<Rightarrow> Inl e
        | Inr residual \<Rightarrow> Inr (residual @ [continuous_time kp - t]))"
proof -
  let ?state = "pose @ [t]"
  have pose: "head ?state (rows ?state - 1) = Inr pose"
    by (rule head_snoc)
  have time: "coeff ?state (rows ?state - 1) = Inr t"
    by (rule coeff_snoc)
  show ?thesis
  proof (cases "PosOrnKeypoint_diff kp pose")
    case (Inl e)
    then show ?thesis
      unfolding SpacetimeKeypoint_diff_def pose by simp
  next
    case (Inr residual)
    then have "SpacetimeKeypoint_diff kp ?state
          = comma_initializer (Zero (rows residual + 1)) residual (continuous_time kp - t)"
      unfolding SpacetimeKeypoint_diff_def pose time by (simp add: Let_def)
    also have "\<dots> = Inr (residual @ [continuous_time kp - t])"
      by (rule comma_initializer_Zero)
    finally show ?thesis
      using Inr by simp
  qed
qed

text \<open>
  C2. \<open>SpacetimeKeypoint::getState\<close> returns the state vector of the underlying pose
  keypoint with exactly one scalar appended at the end, the target's continuous time:
  the result is one longer than the pose state, starts with it and ends with the time.
\<close>

theorem SpacetimeKeypoint_getState_appends_time:
  "SpacetimeKeypoint_getState kp = Inr (PosOrnKeypoint_getState kp @ [continuous_time kp])
   \<and> (\<exists>v. SpacetimeKeypoint_getState kp = Inr v
          \<and> length v = length (PosOrnKeypoint_getState kp) + 1
          \<and> butlast v = PosOrnKeypoint_getState kp
          \<and> last v = continuous_time kp)"
proof -
  let ?state = "PosOrnKeypoint_getState kp"
  have "SpacetimeKeypoint_getState kp
          = comma_initializer (Zero (rows ?state + 1)) ?state (continuous_time kp)"
    by (simp add: SpacetimeKeypoint_getState_def Let_def)
  also have "\<dots> = Inr (?state @ [continuous_time kp])"
    by (rule comma_initializer_Zero)
  finally show ?thesis
    by simp
qed

text \<open>
  C9. Two states that agree on every component but the trailing one, \<open>pose @ [t1]\<close> and
  \<open>pose @ [t2]\<close>, give the same outcome up to the last entry of the residual: without
  its last entry the outcome is that of the base class on \<open>pose\<close>, whatever the trailing
  component is, and the two residuals have the same length. The trailing component of
  the input reaches the last entry only.
\<close>

theorem SpacetimeKeypoint_diff_time_reaches_last_entry_only:
  "map_sum id butlast (SpacetimeKeypoint_diff kp (pose @ [t1]))
     = map_sum id butlast (SpacetimeKeypoint_diff kp (pose @ [t2]))
   \<and> map_sum id butlast (SpacetimeKeypoint_diff kp (pose @ [t1])) = PosOrnKeypoint_diff kp pose
   \<and> map_sum id length (SpacetimeKeypoint_diff kp (pose @ [t1]))
       = map_sum id length (SpacetimeKeypoint_diff kp (pose @ [t2]))"
proof -
  have pose_part: "map_sum id butlast (SpacetimeKeypoint_diff kp (pose @ [t]))
                     = PosOrnKeypoint_diff kp pose" for t
    unfolding diff_snoc by (cases "PosOrnKeypoint_diff kp pose") simp_all
  have len: "map_sum id length (SpacetimeKeypoint_diff kp (pose @ [t]))
               = map_sum id (\<lambda>r. Suc (length r)) (PosOrnKeypoint_diff kp pose)" for t
    unfolding diff_snoc by (cases "PosOrnKeypoint_diff kp pose") simp_all
  show ?thesis
    by (simp add: pose_part len)
qed

text \<open>
  C10. \<open>SpacetimeKeypoint::diff\<close> reads the entry at index \<open>rows - 1\<close> and takes the head of
  length \<open>rows - 1\<close>. On a state with at least one component, \<open>x # xs\<close>, both accesses are
  in range, and the call returns the augmented residual when the base class has a
  residual for the head. On the empty state both are out of range (index and length
  \<open>-1\<close>), and since the function has no check of its own the call has no residual to
  return.
\<close>

theorem SpacetimeKeypoint_diff_defined_on_nonempty_only:
  "head (x # xs) (rows (x # xs) - 1) = Inr (butlast (x # xs))
   \<and> coeff (x # xs) (rows (x # xs) - 1) = Inr (last (x # xs))
   \<and> SpacetimeKeypoint_diff kp (x # xs)
       = (case PosOrnKeypoint_diff kp (butlast (x # xs)) of
            Inl e \<Rightarrow> Inl e
          | Inr residual \<Rightarrow> Inr (residual @ [continuous_time kp - last (x # xs)]))
   \<and> rows ([] :: 'a VectorXd) - 1 = - 1
   \<and> head ([] :: 'a VectorXd) (rows ([] :: 'a VectorXd) - 1) = Inl OutOfRange
   \<and> coeff ([] :: 'a VectorXd) (rows ([] :: 'a VectorXd) - 1) = Inl OutOfRange
   \<and> SpacetimeKeypoint_diff (kp :: ('a::{zero,minus}) SpacetimeKeypoint) [] = Inl OutOfRange"
proof -
  obtain pose t where snoc: "x # xs = pose @ [t]"
    by (metis append_butlast_last_id list.distinct(1))
  have p: "butlast (x # xs) = pose" and l: "last (x # xs) = t"
    using snoc by simp_all
  have 1: "head (x # xs) (rows (x # xs) - 1) = Inr (butlast (x # xs))"
    unfolding p unfolding snoc by (rule head_snoc)
  have 2: "coeff (x # xs) (rows (x # xs) - 1) = Inr (last (x # xs))"
    unfolding l unfolding snoc by (rule coeff_snoc)
  have 3: "SpacetimeKeypoint_diff kp (x # xs)
       = (case PosOrnKeypoint_diff kp (butlast (x # xs)) of
            Inl e \<Rightarrow> Inl e
          | Inr residual \<Rightarrow> Inr (residual @ [continuous_time kp - last (x # xs)]))"
    unfolding p l unfolding snoc by (rule diff_snoc)
  have 4: "SpacetimeKeypoint_diff kp [] = Inl OutOfRange"
    by (simp add: SpacetimeKeypoint_diff_def head_empty)
  have 5: "rows ([] :: 'a VectorXd) - 1 = - 1"
    by (simp add: rows_def)
  show ?thesis
    using 1 2 3 4 5 head_empty [where ?'a = 'a] coeff_empty [where ?'a = 'a] by blast
qed

section \<open>Properties of the solver\<close>

subsection \<open>Vectors and matrices\<close>







subsection \<open>The line search\<close>

lemma backtrack_cases:
  "backtrack candidate J previous n \<alpha> = previous
   \<or> (\<exists>m<n. backtrack candidate J previous n \<alpha> = candidate (\<alpha> / 2 ^ m)
            \<and> J (candidate (\<alpha> / 2 ^ m)) < J previous)"
proof (induction n arbitrary: \<alpha>)
  case 0
  then show ?case by simp
next
  case (Suc n)
  show ?case
  proof (cases "J (candidate \<alpha>) < J previous")
    case True
    then have "backtrack candidate J previous (Suc n) \<alpha> = candidate (\<alpha> / 2 ^ 0)
                 \<and> J (candidate (\<alpha> / 2 ^ 0)) < J previous"
      by simp
    then show ?thesis by blast
  next
    case False
    from Suc.IH [of "\<alpha> / 2"] show ?thesis
    proof
      assume "backtrack candidate J previous n (\<alpha> / 2) = previous"
      with False show ?thesis by simp
    next
      assume "\<exists>m<n. backtrack candidate J previous n (\<alpha> / 2) = candidate (\<alpha> / 2 / 2 ^ m)
                \<and> J (candidate (\<alpha> / 2 / 2 ^ m)) < J previous"
      then obtain m where m: "m < n"
        "backtrack candidate J previous n (\<alpha> / 2) = candidate (\<alpha> / 2 / 2 ^ m)"
        "J (candidate (\<alpha> / 2 / 2 ^ m)) < J previous"
        by blast
      have "\<alpha> / 2 / 2 ^ m = \<alpha> / 2 ^ Suc m"
        by simp
      with m False have "Suc m < Suc n \<and>
          backtrack candidate J previous (Suc n) \<alpha> = candidate (\<alpha> / 2 ^ Suc m)
          \<and> J (candidate (\<alpha> / 2 ^ Suc m)) < J previous"
        by simp
      then show ?thesis by blast
    qed
  qed
qed

lemma backtrack_first:
  "0 < n \<Longrightarrow> J (candidate \<alpha>) < J previous \<Longrightarrow>
   backtrack candidate J previous n \<alpha> = candidate \<alpha>"
  by (cases n) simp_all

subsection \<open>One outer iteration\<close>

lemma outer_iteration_pen:
  "pen (fst (outer_iteration P lag sc ls es i st))
     = (if updates_multipliers P ls lag i st then pen st * sc else pen st)"
  by (simp add: outer_iteration_def updates_multipliers_def Let_def split: option.splits)

lemma outer_iteration_multipliers:
  "multipliers (alg (fst (outer_iteration P lag sc ls es i st)))
     = (if updates_multipliers P ls lag i st
        then update_multipliers (alg st) (pen st) (traj (fst (outer_iteration P lag sc ls es i st)))
        else multipliers (alg st))"
  by (simp add: outer_iteration_def updates_multipliers_def Let_def split: option.splits)

lemma outer_iteration_traj:
  "traj (fst (outer_iteration P lag sc ls es i st))
     = (case optimize P ls st of None \<Rightarrow> traj st | Some new \<Rightarrow> new)"
  by (simp add: outer_iteration_def Let_def split: option.splits)

lemma update_multipliers_nth:
  assumes "k < length (multipliers solver)" "k < length (violations solver tr)"
    "r < length (multipliers solver ! k)" "r < length (violations solver tr ! k)"
  shows "update_multipliers solver penalty tr ! k ! r
           = max 0 (multipliers solver ! k ! r + penalty * violations solver tr ! k ! r)"
proof -
  have "update_multipliers solver penalty tr ! k
          = update_multiplier penalty (multipliers solver ! k) (violations solver tr ! k)"
    using assms(1,2) by (simp add: update_multipliers_def nth_append)
  then show ?thesis
    using assms(3,4) by (simp add: update_multiplier_def)
qed

subsection \<open>The states of the loop\<close>

lemma iterations_not_Nil: "iterations P lag sc ls es n i st \<noteq> []"
  by (cases n) simp_all

lemma iterations_hd: "iterations P lag sc ls es n i st ! 0 = st"
  by (cases n) simp_all

lemma iterations_step:
  "Suc j < length (iterations P lag sc ls es n i st) \<Longrightarrow>
   iterations P lag sc ls es n i st ! Suc j
     = fst (outer_iteration P lag sc ls es (i + int j) (iterations P lag sc ls es n i st ! j))"
proof (induction n arbitrary: i st j)
  case 0
  then show ?case by simp
next
  case (Suc n)
  obtain st' stop where it: "outer_iteration P lag sc ls es i st = (st', stop)"
    by (cases "outer_iteration P lag sc ls es i st")
  show ?case
  proof (cases stop)
    case True
    with it Suc.prems show ?thesis by simp
  next
    case False
    show ?thesis
    proof (cases j)
      case 0
      with it False show ?thesis by (simp add: iterations_hd)
    next
      case (Suc j')
      with it False Suc.prems have "Suc j' < length (iterations P lag sc ls es n (i + 1) st')"
        by simp
      from Suc.IH [OF this]
      have "iterations P lag sc ls es n (i + 1) st' ! Suc j'
              = fst (outer_iteration P lag sc ls es (i + 1 + int j')
                       (iterations P lag sc ls es n (i + 1) st' ! j'))" .
      moreover have "i + 1 + int j' = i + int j"
        using Suc by simp
      ultimately show ?thesis
        using it False Suc by simp
    qed
  qed
qed

lemma length_iterations: "length (iterations P lag sc ls False n i st) = Suc n"
proof (induction n arbitrary: i st)
  case 0
  then show ?case by simp
next
  case (Suc n)
  then show ?case
    by (cases "outer_iteration P lag sc ls False i st")
       (simp add: outer_iteration_def Let_def split: option.splits)
qed

lemma iterations_pen_pos:
  "0 < pen st \<Longrightarrow> 0 < sc \<Longrightarrow> j < length (iterations P lag sc ls es n i st) \<Longrightarrow>
   0 < pen (iterations P lag sc ls es n i st ! j)"
proof (induction j)
  case 0
  then show ?case by (simp add: iterations_hd)
next
  case (Suc j)
  then have "0 < pen (iterations P lag sc ls es n i st ! j)"
    by simp
  then show ?case
    using Suc.prems(2) iterations_step [OF Suc.prems(3)]
    by (simp add: outer_iteration_pen)
qed

subsection \<open>The shape of the trajectories\<close>

lemma length_simulate: "length (simulate sys x us) = Suc (length us)"
  by (induction us arbitrary: x) simp_all

lemma length_forward_from:
  "length (controls (forward_from sys \<alpha> g k x pts)) = length pts
   \<and> length (states (forward_from sys \<alpha> g k x pts)) = Suc (length pts)"
  by (induction sys \<alpha> g k x pts rule: forward_from.induct) (simp_all add: Let_def)

lemma shaped_forward_pass: "shaped T old \<Longrightarrow> shaped T (forward_pass sys \<alpha> g old)"
  by (simp add: shaped_def forward_pass_def length_forward_from)

lemma shaped_backtrack:
  "shaped T previous \<Longrightarrow> (\<And>\<alpha>. shaped T (candidate \<alpha>)) \<Longrightarrow>
   shaped T (backtrack candidate J previous n \<alpha>)"
  using backtrack_cases [of candidate J previous n \<alpha>] by auto

lemma shaped_optimize:
  "shaped T (traj st) \<Longrightarrow> optimize P ls st = Some new \<Longrightarrow> shaped T new"
  by (auto simp add: optimize_def shaped_backtrack shaped_forward_pass
      split: option.splits if_splits)

lemma shaped_outer_iteration:
  "shaped T (traj st) \<Longrightarrow> shaped T (traj (fst (outer_iteration P lag sc ls es i st)))"
  unfolding outer_iteration_traj
  by (cases "optimize P ls st") (simp_all add: shaped_optimize)

lemma shaped_iterations:
  "shaped T (traj st) \<Longrightarrow> j < length (iterations P lag sc ls es n i st) \<Longrightarrow>
   shaped T (traj (iterations P lag sc ls es n i st ! j))"
proof (induction j)
  case 0
  then show ?case by (simp add: iterations_hd)
next
  case (Suc j)
  then have "shaped T (traj (iterations P lag sc ls es n i st ! j))"
    by simp
  then show ?case
    unfolding iterations_step [OF Suc.prems(2)] by (rule shaped_outer_iteration)
qed

lemma length_violations:
  "shaped T tr \<Longrightarrow> length (violations solver tr) = T"
  by (simp add: violations_def timesteps_def shaped_def)

subsection \<open>The small instance, step by step\<close>

lemmas example_defs = example_policy_def example_solver_def AL_ILQR_new_def example_system_def

lemmas cost_defs = total_cost_def timesteps_def multiplier_at_def constraint_value_def
  constraints_def active_set_def active_rows_def augmentedLossK_def dot_def mat_vec_def
  vec_sub_def Let_def

lemma example_valid: "valid_configuration example_solver [[0]] 2 1 1"
  by (simp add: valid_configuration_def example_solver_def AL_ILQR_new_def example_system_def)

lemma example_length: "length example_states = 3"
  by (simp add: example_states_def solve_states_def length_iterations)

lemma example_state0:
  "example_states ! 0 = \<lparr>alg = example_solver, pen = 1, traj = \<lparr>states = [[0], [0]], controls = [[0]]\<rparr>\<rparr>"
  by (simp add: example_states_def solve_states_def iterations_hd initial_trajectory_def
      example_solver_def AL_ILQR_new_def example_system_def vec_add_def)

lemma example_multipliers: "multipliers example_solver = [[0]]"
  by (simp add: example_defs)

lemma example_old_cost:
  "total_cost example_solver 1 \<lparr>states = [[0], [0]], controls = [[0]]\<rparr> = 1 / 2"
  by (simp add: example_defs cost_defs)

lemma example_forward:
  "forward_pass (s example_solver) 1 (\<lambda>k. ([1 / 3], [[0]]))
     \<lparr>states = [[0], [0]], controls = [[0]]\<rparr>
   = \<lparr>states = [[0], [1 / 3]], controls = [[1 / 3]]\<rparr>"
  by (simp add: example_defs forward_pass_def vec_add_def vec_sub_def scale_def mat_vec_def
      dot_def Let_def)

lemma example_new_cost:
  "total_cost example_solver 1 \<lparr>states = [[0], [1 / 3]], controls = [[1 / 3]]\<rparr> = 1 / 3"
  by (simp add: example_defs cost_defs)

lemma example_optimize:
  "optimize example_policy True
     \<lparr>alg = example_solver, pen = 1, traj = \<lparr>states = [[0], [0]], controls = [[0]]\<rparr>\<rparr>
   = Some \<lparr>states = [[0], [1 / 3]], controls = [[1 / 3]]\<rparr>"
proof -
  have "backtrack (\<lambda>\<alpha>. forward_pass (s example_solver) \<alpha> (\<lambda>k. ([1 / 3], [[0]]))
                       \<lparr>states = [[0], [0]], controls = [[0]]\<rparr>)
          (total_cost example_solver 1) \<lparr>states = [[0], [0]], controls = [[0]]\<rparr> 4 1
        = forward_pass (s example_solver) 1 (\<lambda>k. ([1 / 3], [[0]]))
            \<lparr>states = [[0], [0]], controls = [[0]]\<rparr>"
    by (rule backtrack_first) (simp_all add: example_forward example_new_cost example_old_cost)
  then show ?thesis
    by (simp add: optimize_def example_policy_def example_forward example_multipliers)
qed

lemma example_update:
  "update_multipliers example_solver 1 \<lparr>states = [[0], [1 / 3]], controls = [[1 / 3]]\<rparr>
     = [[2 / 3]]"
  by (simp add: update_multipliers_def update_multiplier_def violations_def example_defs
      timesteps_def constraint_value_def constraints_def dot_def mat_vec_def vec_sub_def)

lemma example_step0:
  "outer_iteration example_policy 1 10 True False 0
     \<lparr>alg = example_solver, pen = 1, traj = \<lparr>states = [[0], [0]], controls = [[0]]\<rparr>\<rparr>
   = (\<lparr>alg = example_solver\<lparr>multipliers := [[2 / 3]]\<rparr>, pen = 10,
       traj = \<lparr>states = [[0], [1 / 3]], controls = [[1 / 3]]\<rparr>\<rparr>, False)"
  by (simp add: outer_iteration_def example_optimize example_update Let_def)

lemma example_state1:
  "example_states ! 1 = \<lparr>alg = example_solver\<lparr>multipliers := [[2 / 3]]\<rparr>, pen = 10,
       traj = \<lparr>states = [[0], [1 / 3]], controls = [[1 / 3]]\<rparr>\<rparr>"
proof -
  have "Suc 0 < length (iterations example_policy 1 10 True False (nat 2) 0
      \<lparr>alg = example_solver, pen = 1, traj = initial_trajectory (s example_solver) [[0]]\<rparr>)"
    by (simp add: length_iterations)
  from iterations_step [OF this] show ?thesis
    using example_state0 example_step0
    by (simp add: example_states_def solve_states_def)
qed

lemma example_old_cost1:
  "total_cost (example_solver\<lparr>multipliers := [[2 / 3]]\<rparr>) 10
     \<lparr>states = [[0], [1 / 3]], controls = [[1 / 3]]\<rparr> = 25 / 9"
  by (simp add: example_defs cost_defs)

lemma example_forward1:
  "forward_pass (s example_solver) 1 (\<lambda>k. ([5 / 9], [[0]]))
     \<lparr>states = [[0], [1 / 3]], controls = [[1 / 3]]\<rparr>
   = \<lparr>states = [[0], [8 / 9]], controls = [[8 / 9]]\<rparr>"
  by (simp add: example_defs forward_pass_def vec_add_def vec_sub_def scale_def mat_vec_def
      dot_def Let_def)

lemma example_new_cost1:
  "total_cost (example_solver\<lparr>multipliers := [[2 / 3]]\<rparr>) 10
     \<lparr>states = [[0], [8 / 9]], controls = [[8 / 9]]\<rparr> = 25 / 27"
  by (simp add: example_defs cost_defs)

lemma example_optimize1:
  "optimize example_policy True
     \<lparr>alg = example_solver\<lparr>multipliers := [[2 / 3]]\<rparr>, pen = 10,
      traj = \<lparr>states = [[0], [1 / 3]], controls = [[1 / 3]]\<rparr>\<rparr>
   = Some \<lparr>states = [[0], [8 / 9]], controls = [[8 / 9]]\<rparr>"
proof -
  have "backtrack (\<lambda>\<alpha>. forward_pass (s example_solver) \<alpha>
                       (\<lambda>k. ([5 / 9], [[0]])) \<lparr>states = [[0], [1 / 3]], controls = [[1 / 3]]\<rparr>)
          (total_cost (example_solver\<lparr>multipliers := [[2 / 3]]\<rparr>) 10)
          \<lparr>states = [[0], [1 / 3]], controls = [[1 / 3]]\<rparr> 4 1
        = forward_pass (s example_solver) 1 (\<lambda>k. ([5 / 9], [[0]]))
            \<lparr>states = [[0], [1 / 3]], controls = [[1 / 3]]\<rparr>"
    by (rule backtrack_first)
       (simp_all add: example_forward1 example_new_cost1 example_old_cost1)
  then show ?thesis
    by (simp add: optimize_def example_policy_def example_forward1)
qed

lemma example_update1:
  "update_multipliers (example_solver\<lparr>multipliers := [[2 / 3]]\<rparr>) 10
     \<lparr>states = [[0], [8 / 9]], controls = [[8 / 9]]\<rparr> = [[16 / 9]]"
  by (simp add: update_multipliers_def update_multiplier_def violations_def example_defs
      timesteps_def constraint_value_def constraints_def dot_def mat_vec_def vec_sub_def)

lemma example_step1:
  "outer_iteration example_policy 1 10 True False 1
     \<lparr>alg = example_solver\<lparr>multipliers := [[2 / 3]]\<rparr>, pen = 10,
      traj = \<lparr>states = [[0], [1 / 3]], controls = [[1 / 3]]\<rparr>\<rparr>
   = (\<lparr>alg = example_solver\<lparr>multipliers := [[16 / 9]]\<rparr>, pen = 100,
       traj = \<lparr>states = [[0], [8 / 9]], controls = [[8 / 9]]\<rparr>\<rparr>, False)"
  by (simp add: outer_iteration_def example_optimize1 example_update1 Let_def)

lemma example_state2:
  "example_states ! 2 = \<lparr>alg = example_solver\<lparr>multipliers := [[16 / 9]]\<rparr>, pen = 100,
       traj = \<lparr>states = [[0], [8 / 9]], controls = [[8 / 9]]\<rparr>\<rparr>"
proof -
  have "Suc 1 < length (iterations example_policy 1 10 True False (nat 2) 0
      \<lparr>alg = example_solver, pen = 1, traj = initial_trajectory (s example_solver) [[0]]\<rparr>)"
    by (simp add: length_iterations)
  from iterations_step [OF this] have "example_states ! Suc 1
      = fst (outer_iteration example_policy 1 10 True False 1 (example_states ! 1))"
    by (simp add: example_states_def solve_states_def)
  then show ?thesis
    unfolding example_state1 example_step1 by (simp add: numeral_2_eq_2)
qed

lemma example_last: "last example_states = example_states ! 2"
proof -
  have "example_states \<noteq> []"
    using example_length by auto
  then show ?thesis
    by (simp add: last_conv_nth example_length)
qed

subsection \<open>The loop of the solver and what it returns\<close>



text \<open>
  C5. Between the states before and after outer iteration \<open>j\<close> the multipliers differ only
  when \<open>j\<close> is a multiple of \<open>lag_update_step\<close>: at every other iteration they are unchanged.
  When the iteration updates them, every entry is \<open>max(0, \<lambda> + penalty\<cdot>C)\<close>, with the
  constraint value of the trajectory just accepted, and so is not negative.
\<close>

theorem multipliers_follow_cadence:
  fixes P solver U0 nb_iter lag_update_step penalty scaling_factor line_search early_stop
  defines "tr \<equiv> solve_states P solver U0 nb_iter lag_update_step penalty scaling_factor
                   line_search early_stop"
  assumes j: "Suc j < length tr"
  shows "(int j mod lag_update_step \<noteq> 0 \<longrightarrow>
            multipliers (alg (tr ! Suc j)) = multipliers (alg (tr ! j)))
       \<and> multipliers (alg (tr ! Suc j))
           = (if updates_multipliers P line_search lag_update_step (int j) (tr ! j)
              then update_multipliers (alg (tr ! j)) (pen (tr ! j)) (traj (tr ! Suc j))
              else multipliers (alg (tr ! j)))
       \<and> (updates_multipliers P line_search lag_update_step (int j) (tr ! j)
            \<longrightarrow> k < length (multipliers (alg (tr ! j)))
            \<longrightarrow> k < length (violations (alg (tr ! j)) (traj (tr ! Suc j)))
            \<longrightarrow> r < length (multipliers (alg (tr ! j)) ! k)
            \<longrightarrow> r < length (violations (alg (tr ! j)) (traj (tr ! Suc j)) ! k)
            \<longrightarrow> multipliers (alg (tr ! Suc j)) ! k ! r
                  = max 0 (multipliers (alg (tr ! j)) ! k ! r
                           + pen (tr ! j) * violations (alg (tr ! j)) (traj (tr ! Suc j)) ! k ! r))"
proof -
  have step: "tr ! Suc j = fst (outer_iteration P lag_update_step scaling_factor line_search
                                  early_stop (int j) (tr ! j))"
    using iterations_step [of j P lag_update_step scaling_factor line_search early_stop
        "nat nb_iter" 0] j
    by (simp add: tr_def solve_states_def)
  have eq: "multipliers (alg (tr ! Suc j))
           = (if updates_multipliers P line_search lag_update_step (int j) (tr ! j)
              then update_multipliers (alg (tr ! j)) (pen (tr ! j)) (traj (tr ! Suc j))
              else multipliers (alg (tr ! j)))"
    unfolding step by (rule outer_iteration_multipliers)
  have off: "\<not> updates_multipliers P line_search lag_update_step (int j) (tr ! j)"
    if "int j mod lag_update_step \<noteq> 0"
    using that by (simp add: updates_multipliers_def)
  show ?thesis
    using eq off by (simp add: update_multipliers_nth)
qed

theorem multipliers_follow_cadence_witness:
  "Suc 1 < length (solve_states example_policy example_solver [[0]] 2 2 1 10 True False)
   \<and> int 1 mod 2 \<noteq> 0
   \<and> multipliers (alg (solve_states example_policy example_solver [[0]] 2 2 1 10 True False ! Suc 1))
       = multipliers (alg (solve_states example_policy example_solver [[0]] 2 2 1 10 True False ! 1))
   \<and> Suc 0 < length example_states
   \<and> updates_multipliers example_policy True 1 (int 0) (example_states ! 0)
   \<and> multipliers (alg (example_states ! Suc 0)) ! 0 ! 0 = max 0 (0 + 1 * (2 / 3))"
proof -
  have len: "Suc 1 < length (solve_states example_policy example_solver [[0]] 2 2 1 10 True False)"
    by (simp add: solve_states_def length_iterations)
  have len0: "Suc 0 < length (solve_states example_policy example_solver [[0]] 2 1 1 10 True False)"
    by (simp add: solve_states_def length_iterations)
  have up: "updates_multipliers example_policy True 1 (int 0) (example_states ! 0)"
    by (simp add: updates_multipliers_def example_state0 example_optimize)
  have v: "violations example_solver \<lparr>states = [[0], [1 / 3]], controls = [[1 / 3]]\<rparr>
             = [[2 / 3]]"
    by (simp add: violations_def example_defs timesteps_def constraint_value_def
        constraints_def dot_def mat_vec_def vec_sub_def)
  have m: "multipliers example_solver = [[0]]"
    by (simp add: example_defs)
  have s1: "example_states ! Suc 0 = \<lparr>alg = example_solver\<lparr>multipliers := [[2 / 3]]\<rparr>, pen = 10,
       traj = \<lparr>states = [[0], [1 / 3]], controls = [[1 / 3]]\<rparr>\<rparr>"
    using example_state1 by simp
  have off: "multipliers (alg (solve_states example_policy example_solver [[0]] 2 2 1 10 True False ! Suc 1))
       = multipliers (alg (solve_states example_policy example_solver [[0]] 2 2 1 10 True False ! 1))"
    using multipliers_follow_cadence [OF len] by simp
  have h1: "0 < length (multipliers (alg (example_states ! 0)))"
    by (simp add: example_state0 m)
  have h2: "0 < length (violations (alg (example_states ! 0)) (traj (example_states ! Suc 0)))"
    by (simp add: example_state0 s1 v)
  have h3: "0 < length (multipliers (alg (example_states ! 0)) ! 0)"
    by (simp add: example_state0 m)
  have h4: "0 < length (violations (alg (example_states ! 0)) (traj (example_states ! Suc 0)) ! 0)"
    by (simp add: example_state0 s1 v)
  have rhs: "multipliers (alg (example_states ! 0)) ! 0 ! 0
               + pen (example_states ! 0)
                 * violations (alg (example_states ! 0)) (traj (example_states ! Suc 0)) ! 0 ! 0
             = 0 + 1 * (2 / 3)"
    by (simp add: example_state0 s1 v m)
  have "multipliers (alg (example_states ! Suc 0)) ! 0 ! 0
          = max 0 (multipliers (alg (example_states ! 0)) ! 0 ! 0
                   + pen (example_states ! 0)
                     * violations (alg (example_states ! 0)) (traj (example_states ! Suc 0)) ! 0 ! 0)"
    using multipliers_follow_cadence [OF len0, of 0 0] up h1 h2 h3 h4
    unfolding example_states_def [symmetric] by blast
  then have on: "multipliers (alg (example_states ! Suc 0)) ! 0 ! 0 = max 0 (0 + 1 * (2 / 3))"
    unfolding rhs .
  show ?thesis
    using len off up on by (simp add: example_length)
qed

text \<open>
  C6. In a \<open>solve\<close> call with a valid configuration and \<open>scaling_factor \<ge> 1\<close>, the penalty
  starts at the value of the caller, never decreases from one state of the loop to the
  next, and changes only by being multiplied by \<open>scaling_factor\<close>, exactly in the
  iterations that update the multipliers.
\<close>

theorem penalty_non_decreasing:
  fixes P solver U0 nb_iter lag_update_step penalty scaling_factor line_search early_stop
  defines "tr \<equiv> solve_states P solver U0 nb_iter lag_update_step penalty scaling_factor
                   line_search early_stop"
  assumes valid: "valid_configuration solver U0 nb_iter lag_update_step penalty"
    and sc: "1 \<le> scaling_factor"
  shows "pen (tr ! 0) = penalty
       \<and> sorted (map pen tr)
       \<and> (\<forall>j. Suc j < length tr \<longrightarrow>
             pen (tr ! Suc j)
               = (if updates_multipliers P line_search lag_update_step (int j) (tr ! j)
                  then pen (tr ! j) * scaling_factor else pen (tr ! j)))"
proof -
  have pos: "0 < penalty"
    using valid by (simp add: valid_configuration_def)
  have first: "pen (tr ! 0) = penalty"
    by (simp add: tr_def solve_states_def iterations_hd)
  have step: "pen (tr ! Suc j)
               = (if updates_multipliers P line_search lag_update_step (int j) (tr ! j)
                  then pen (tr ! j) * scaling_factor else pen (tr ! j))"
    if j: "Suc j < length tr" for j
  proof -
    have "tr ! Suc j = fst (outer_iteration P lag_update_step scaling_factor line_search
                              early_stop (int j) (tr ! j))"
      using iterations_step [of j P lag_update_step scaling_factor line_search early_stop
          "nat nb_iter" 0] j
      by (simp add: tr_def solve_states_def)
    then show ?thesis
      by (simp add: outer_iteration_pen)
  qed
  have mono: "pen (tr ! j) \<le> pen (tr ! Suc j)" if j: "Suc j < length tr" for j
  proof -
    have "0 < pen (tr ! j)"
      unfolding tr_def solve_states_def
      using j pos sc by (intro iterations_pen_pos) (simp_all add: tr_def solve_states_def)
    then have "pen (tr ! j) * 1 \<le> pen (tr ! j) * scaling_factor"
      using sc by (intro mult_left_mono) simp_all
    then show ?thesis
      using step [OF j] by simp
  qed
  have "sorted (map pen tr)"
    unfolding sorted_iff_nth_Suc using mono by simp
  with first step show ?thesis by blast
qed

theorem penalty_non_decreasing_witness:
  "valid_configuration example_solver [[0]] 2 1 1 \<and> (1::real) \<le> 10
   \<and> pen (example_states ! 0) = 1
   \<and> sorted (map pen example_states)
   \<and> Suc 0 < length example_states
   \<and> pen (example_states ! Suc 0) = pen (example_states ! 0) * 10"
proof -
  have sc: "(1::real) \<le> 10" by simp
  have up: "updates_multipliers example_policy True 1 (int 0) (example_states ! 0)"
    by (simp add: updates_multipliers_def example_state0 example_optimize)
  show ?thesis
    using penalty_non_decreasing [OF example_valid sc, of example_policy True False]
      example_valid up
    by (simp add: example_states_def [symmetric] example_length)
qed

text \<open>
  C7. A \<open>solve\<close> call with a valid configuration returns three sequences: the states, the
  controls and the constraint violations of the state the loop ends in, that is of the
  last accepted trajectory, with \<open>horizon + 1\<close> states, \<open>horizon\<close> controls and \<open>horizon\<close>
  violations. Nothing asks the trajectory to be feasible: on the small instance the
  returned violation is \<open>1/9 > 0\<close>.
\<close>

theorem solve_returns_final_trajectory:
  fixes P solver U0 nb_iter lag_update_step penalty scaling_factor line_search early_stop
  defines "final \<equiv> last (solve_states P solver U0 nb_iter lag_update_step penalty
                             scaling_factor line_search early_stop)"
  assumes valid: "valid_configuration solver U0 nb_iter lag_update_step penalty"
  shows "\<exists>X U V. fst (solve P solver U0 nb_iter lag_update_step penalty scaling_factor
                       line_search early_stop) = Inr (X, U, V)
               \<and> X = states (traj final) \<and> U = controls (traj final)
               \<and> V = violations (alg final) (traj final)
               \<and> length X = horizon (s solver) + 1
               \<and> length U = horizon (s solver)
               \<and> length V = horizon (s solver)"
proof -
  let ?tr = "solve_states P solver U0 nb_iter lag_update_step penalty scaling_factor
               line_search early_stop"
  have ne: "?tr \<noteq> []"
    by (simp add: solve_states_def iterations_not_Nil)
  have init: "shaped (horizon (s solver)) (initial_trajectory (s solver) U0)"
    using valid
    by (simp add: shaped_def initial_trajectory_def length_simulate valid_configuration_def)
  have "final = ?tr ! (length ?tr - 1)"
    unfolding final_def using ne by (rule last_conv_nth)
  moreover have "shaped (horizon (s solver)) (traj (?tr ! (length ?tr - 1)))"
    unfolding solve_states_def using init ne
    by (intro shaped_iterations) (simp_all add: solve_states_def)
  ultimately have sh: "shaped (horizon (s solver)) (traj final)"
    by simp
  have "fst (solve P solver U0 nb_iter lag_update_step penalty scaling_factor
               line_search early_stop)
          = Inr (states (traj final), controls (traj final), violations (alg final) (traj final))"
    using valid by (simp add: solve_def final_def Let_def)
  then show ?thesis
    using sh length_violations [OF sh] by (simp add: shaped_def)
qed

theorem solve_returns_final_trajectory_witness:
  "valid_configuration example_solver [[0]] 2 1 1
   \<and> fst (solve example_policy example_solver [[0]] 2 1 1 10 True False)
       = Inr ([[0], [8 / 9]], [[8 / 9]], [[1 / 9]])
   \<and> length [[0], [8 / 9 :: real]] = horizon (s example_solver) + 1"
proof -
  have v: "violations (example_solver\<lparr>multipliers := [[16 / 9]]\<rparr>)
             \<lparr>states = [[0], [8 / 9]], controls = [[8 / 9]]\<rparr> = [[1 / 9]]"
    by (simp add: violations_def example_defs timesteps_def constraint_value_def
        constraints_def dot_def mat_vec_def vec_sub_def)
  show ?thesis
    using solve_returns_final_trajectory [OF example_valid, of example_policy 10 True False]
      example_valid v
    by (simp add: example_states_def [symmetric] example_last example_state2)
qed

text \<open>
  C8. A \<open>solve\<close> call with an invalid configuration (multipliers that do not match the
  constraints, a non-positive \<open>nb_iter\<close>, \<open>lag_update_step\<close> or \<open>penalty\<close>, or initial controls
  whose number is not the horizon) fails with \<open>InvalidConfiguration\<close> and leaves the solver
  object as it was, whatever the passes are: none of them is run.
\<close>

theorem invalid_configuration_fails_before_any_work:
  assumes "\<not> list_all2 (\<lambda>lambdak c. length lambdak = length (A c))
               (multipliers solver) (inequality solver)
           \<or> nb_iter \<le> 0 \<or> lag_update_step \<le> 0 \<or> penalty \<le> 0
           \<or> length U0 \<noteq> horizon (s solver)"
  shows "solve P solver U0 nb_iter lag_update_step penalty scaling_factor line_search early_stop
           = (Inl InvalidConfiguration, solver)"
proof -
  have "\<not> valid_configuration solver U0 nb_iter lag_update_step penalty"
    using assms by (auto simp add: valid_configuration_def)
  then show ?thesis
    by (simp add: solve_def)
qed

theorem invalid_configuration_fails_before_any_work_witness:
  "\<not> list_all2 (\<lambda>lambdak c. length lambdak = length (A c))
       (multipliers (example_solver\<lparr>multipliers := []\<rparr>))
       (inequality (example_solver\<lparr>multipliers := []\<rparr>))
   \<and> solve example_policy (example_solver\<lparr>multipliers := []\<rparr>) [[0]] 2 1 1 10 True False
       = (Inl InvalidConfiguration, example_solver\<lparr>multipliers := []\<rparr>)
   \<and> solve example_policy example_solver [[0]] 0 1 1 10 True False
       = (Inl InvalidConfiguration, example_solver)
   \<and> solve example_policy example_solver [[0]] 2 0 1 10 True False
       = (Inl InvalidConfiguration, example_solver)
   \<and> solve example_policy example_solver [[0]] 2 1 0 10 True False
       = (Inl InvalidConfiguration, example_solver)
   \<and> length ([] :: Vec list) \<noteq> horizon (s example_solver)
   \<and> solve example_policy example_solver [] 2 1 1 10 True False
       = (Inl InvalidConfiguration, example_solver)"
proof -
  have m: "\<not> list_all2 (\<lambda>lambdak c. length lambdak = length (A c))
       (multipliers (example_solver\<lparr>multipliers := []\<rparr>))
       (inequality (example_solver\<lparr>multipliers := []\<rparr>))"
    by (simp add: example_defs)
  have h: "length ([] :: Vec list) \<noteq> horizon (s example_solver)"
    by (simp add: example_defs)
  show ?thesis
    using m h
      invalid_configuration_fails_before_any_work
        [of "example_solver\<lparr>multipliers := []\<rparr>" 2 1 1 "[[0]]" example_policy 10 True False]
      invalid_configuration_fails_before_any_work
        [of example_solver 0 1 1 "[[0]]" example_policy 10 True False]
      invalid_configuration_fails_before_any_work
        [of example_solver 2 0 1 "[[0]]" example_policy 10 True False]
      invalid_configuration_fails_before_any_work
        [of example_solver 2 1 0 "[[0]]" example_policy 10 True False]
      invalid_configuration_fails_before_any_work
        [of example_solver 2 1 1 "[]" example_policy 10 True False]
    by simp
qed

end
